theory Spec2Isabelle
  imports Complex_Main "HOL-Library.Sublist"
begin

section \<open>Exceptions\<close>

text \<open>
  The objects the code raises and catches. \<open>Exception s\<close> stands for an instance of
  Python's class \<open>Exception\<close> (or of a subclass) whose \<open>str\<close> is \<open>s\<close>. The other three
  derive from \<open>BaseException\<close> only (\<open>asyncio.CancelledError\<close> since Python 3.8), so
  a clause \<open>except Exception\<close> does not catch them.
\<close>

datatype exn = CancelledError | KeyboardInterrupt | SystemExit | Exception string

fun isinstance_Exception :: "exn \<Rightarrow> bool" where
  "isinstance_Exception (Exception s) = True"
| "isinstance_Exception e = False"

fun str_exn :: "exn \<Rightarrow> string" where
  "str_exn (Exception s) = s"
| "str_exn e = []"

section \<open>The shared HTTP client (\<open>utils/http_client.py\<close>)\<close>

text \<open>
  An \<open>httpx.AsyncClient\<close> object, as \<open>get_client\<close> constructs it: the keyword
  arguments of the constructor call, and whether \<open>aclose\<close> has been called on the
  object. \<open>None\<close> in the two limits is Python's \<open>None\<close>: no bound.
\<close>

record async_client =
  timeout :: real
  proxies :: "(string \<rightharpoonup> string) option"
  follow_redirects :: bool
  max_connections :: "nat option"
  max_keepalive_connections :: "nat option"
  aclose_called :: bool

text \<open>
  The singleton \<open>http_client\<close>. Python objects have identity, so the model keeps a
  store: \<open>heap\<close> holds every \<open>AsyncClient\<close> constructed so far, in the order of
  construction; a reference to one is its index. The field \<open>client\<close> is the attribute
  \<open>_client\<close>: \<open>None\<close>, or a reference. The body of \<open>get_client\<close> has no \<open>await\<close>, so
  on the event loop a call runs from its test to its return without another coroutine in
  between: calls are modelled one after another.
\<close>

record http_state =
  client :: "nat option"
  heap :: "async_client list"

definition initial_http :: http_state where
  "initial_http = \<lparr>client = None, heap = []\<rparr>"

text \<open>Every reference held in \<open>_client\<close> points into the store.\<close>

definition wf_http :: "http_state \<Rightarrow> bool" where
  "wf_http st = (case client st of None \<Rightarrow> True | Some c \<Rightarrow> c < length (heap st))"

text \<open>
  \<open>PROXY_URL\<close> comes from \<open>wastream.core.config\<close>, which is not among the sources: it
  is a parameter, \<open>None\<close> or a string. \<open>truthy\<close> is Python's truth value of it.
\<close>

fun truthy :: "string option \<Rightarrow> bool" where
  "truthy None = False"
| "truthy (Some s) = (s \<noteq> [])"

definition new_async_client :: "string option \<Rightarrow> async_client" where
  "new_async_client PROXY_URL =
     \<lparr>timeout = 15,
      proxies = (if truthy PROXY_URL then Some [''all://'' \<mapsto> the PROXY_URL] else None),
      follow_redirects = True,
      max_connections = None,
      max_keepalive_connections = None,
      aclose_called = False\<rparr>"

text \<open>
  \<open>get_client\<close>. The constructor call \<open>httpx.AsyncClient(...)\<close> is the library's work and
  can raise: httpx refuses, for one, a proxy URL whose scheme it does not know.
  \<open>constructor\<close> is the outcome of that call, should this call of \<open>get_client\<close> make it:
  \<open>None\<close> when it returns the object, \<open>Some e\<close> when it raises \<open>e\<close>. Nothing catches the
  exception, and the assignment to \<open>_client\<close> is not reached then.
\<close>

definition get_client ::
  "exn option \<Rightarrow> string option \<Rightarrow> http_state \<Rightarrow> (exn + nat) \<times> http_state" where
  "get_client constructor PROXY_URL st =
     (case client st of
        None \<Rightarrow>
          (case constructor of
             Some e \<Rightarrow> (Inl e, st)
           | None \<Rightarrow>
               (let c = length (heap st);
                    st' = st\<lparr>client := Some c, heap := heap st @ [new_async_client PROXY_URL]\<rparr>
                in (Inr c, st')))
      | Some c \<Rightarrow> (Inr c, st))"

text \<open>
  \<open>get\<close> and \<open>post\<close>: an exception of \<open>get_client\<close> leaves the function; otherwise the
  request is the transport's work. \<open>client_get c url kwargs\<close> and
  \<open>client_post c url kwargs\<close> are what the \<open>AsyncClient\<close> referred to by \<open>c\<close> answers or
  raises; both are parameters.
\<close>

definition get ::
  "exn option \<Rightarrow> string option \<Rightarrow> (nat \<Rightarrow> string \<Rightarrow> 'kw \<Rightarrow> exn + 'r) \<Rightarrow> string \<Rightarrow> 'kw
     \<Rightarrow> http_state \<Rightarrow> (exn + 'r) \<times> http_state" where
  "get constructor PROXY_URL client_get url kwargs st =
     (case get_client constructor PROXY_URL st of
        (Inl e, st') \<Rightarrow> (Inl e, st')
      | (Inr c, st') \<Rightarrow> (client_get c url kwargs, st'))"

definition post ::
  "exn option \<Rightarrow> string option \<Rightarrow> (nat \<Rightarrow> string \<Rightarrow> 'kw \<Rightarrow> exn + 'r) \<Rightarrow> string \<Rightarrow> 'kw
     \<Rightarrow> http_state \<Rightarrow> (exn + 'r) \<times> http_state" where
  "post constructor PROXY_URL client_post url kwargs st =
     (case get_client constructor PROXY_URL st of
        (Inl e, st') \<Rightarrow> (Inl e, st')
      | (Inr c, st') \<Rightarrow> (client_post c url kwargs, st'))"

text \<open>
  \<open>close\<close>. \<open>aclose\<close> is the outcome of \<open>await self._client.aclose()\<close>: \<open>None\<close> when it
  completes, \<open>Some e\<close> when it raises \<open>e\<close>. An \<open>AsyncClient\<close> object is always true in
  a condition, so \<open>if self._client\<close> asks whether the attribute is not \<open>None\<close>. The
  assignment \<open>self._client = None\<close> comes after the await and is skipped when it raises.
\<close>

definition close :: "exn option \<Rightarrow> http_state \<Rightarrow> (exn + unit) \<times> http_state" where
  "close aclose st =
     (case client st of
        None \<Rightarrow> (Inr (), st)
      | Some c \<Rightarrow>
          (let st1 = st\<lparr>heap := (heap st)[c := (heap st ! c)\<lparr>aclose_called := True\<rparr>]\<rparr>
           in case aclose of
                Some e \<Rightarrow> (Inl e, st1)
              | None \<Rightarrow> (Inr (), st1\<lparr>client := None\<rparr>)))"

text \<open>
  A sequence of calls to the accessor: \<open>get_client()\<close>, \<open>get(url, **kwargs)\<close>,
  \<open>post(url, **kwargs)\<close>, each paired with what the constructor does should that call
  run it. A call raises, or answers with the handle or with the transport's response.
\<close>

datatype 'kw call = GetClient | Get string 'kw | Post string 'kw

datatype 'r reply = Handle nat | Response 'r

fun perform ::
  "string option \<Rightarrow> (nat \<Rightarrow> string \<Rightarrow> 'kw \<Rightarrow> exn + 'r) \<Rightarrow> (nat \<Rightarrow> string \<Rightarrow> 'kw \<Rightarrow> exn + 'r)
     \<Rightarrow> exn option \<Rightarrow> 'kw call \<Rightarrow> http_state \<Rightarrow> (exn + 'r reply) \<times> http_state" where
  "perform P cg cp constructor GetClient st =
     (let (r, st') = get_client constructor P st in (map_sum id Handle r, st'))"
| "perform P cg cp constructor (Get url kwargs) st =
     (let (r, st') = get constructor P cg url kwargs st in (map_sum id Response r, st'))"
| "perform P cg cp constructor (Post url kwargs) st =
     (let (r, st') = post constructor P cp url kwargs st in (map_sum id Response r, st'))"

fun perform_all ::
  "string option \<Rightarrow> (nat \<Rightarrow> string \<Rightarrow> 'kw \<Rightarrow> exn + 'r) \<Rightarrow> (nat \<Rightarrow> string \<Rightarrow> 'kw \<Rightarrow> exn + 'r)
     \<Rightarrow> (exn option \<times> 'kw call) list \<Rightarrow> http_state \<Rightarrow> (exn + 'r reply) list \<times> http_state" where
  "perform_all P cg cp [] st = ([], st)"
| "perform_all P cg cp ((constructor, x) # xs) st =
     (let (r, st1) = perform P cg cp constructor x st;
          (rs, st2) = perform_all P cg cp xs st1
      in (r # rs, st2))"

text \<open>What a call answers when the accessor hands it the handle \<open>c\<close>.\<close>

fun reply_with ::
  "(nat \<Rightarrow> string \<Rightarrow> 'kw \<Rightarrow> exn + 'r) \<Rightarrow> (nat \<Rightarrow> string \<Rightarrow> 'kw \<Rightarrow> exn + 'r) \<Rightarrow> nat \<Rightarrow> 'kw call
     \<Rightarrow> exn + 'r reply" where
  "reply_with cg cp c GetClient = Inr (Handle c)"
| "reply_with cg cp c (Get url kwargs) = map_sum id Response (cg c url kwargs)"
| "reply_with cg cp c (Post url kwargs) = map_sum id Response (cp c url kwargs)"

text \<open>
  Which proxy a constructed client sends a URL of scheme \<open>scheme\<close> to: httpx looks the
  scheme's own pattern up first, then the pattern \<open>all://\<close>, which matches every URL.
\<close>

definition proxy_for :: "async_client \<Rightarrow> string \<Rightarrow> string option" where
  "proxy_for c scheme =
     (case proxies c of
        None \<Rightarrow> None
      | Some m \<Rightarrow> (case m (scheme @ ''://'') of Some p \<Rightarrow> Some p | None \<Rightarrow> m ''all://''))"

section \<open>The request logging middleware (\<open>main.py\<close>, \<open>LoguruMiddleware\<close>)\<close>

text \<open>
  Modelled from the spec: \<open>wastream.utils.logger\<close> is not among the sources. A call
  \<open>logger.log(level, message)\<close> produces one log entry; the log is the list of
  entries, oldest first.
\<close>

type_synonym log_entry = "string \<times> string"

definition logger_log :: "string \<Rightarrow> string \<Rightarrow> log_entry list \<Rightarrow> log_entry list" where
  "logger_log level message entries = entries @ [(level, message)]"

text \<open>Python's \<open>str\<close> of an integer, as an f-string renders \<open>response.status_code\<close>.\<close>

definition digit :: "nat \<Rightarrow> char" where
  "digit d = ''0123456789'' ! d"

fun str_nat :: "nat \<Rightarrow> string" where
  "str_nat n = (if n < 10 then [digit n] else str_nat (n div 10) @ [digit (n mod 10)])"

declare str_nat.simps [simp del]

definition str_int :: "int \<Rightarrow> string" where
  "str_int i = (if i < 0 then ''-'' @ str_nat (nat (- i)) else str_nat (nat i))"

text \<open>
  The format specification \<open>.2f\<close>: two decimals, ties rounded to the even neighbour,
  the sign kept. A Python float is read as the real number it stands for.
\<close>

definition round_half_even :: "real \<Rightarrow> int" where
  "round_half_even y =
     (let f = \<lfloor>y\<rfloor>; r = y - of_int f
      in if r < 1 / 2 then f else if 1 / 2 < r then f + 1 else if even f then f else f + 1)"

definition format_2f :: "real \<Rightarrow> string" where
  "format_2f x =
     (let n = nat (round_half_even (\<bar>x\<bar> * 100))
      in (if x < 0 then ''-'' else []) @ str_nat (n div 100) @ ''.''
           @ [digit (n mod 100 div 10), digit (n mod 10)])"

text \<open>\<open>request.method\<close> (the field \<open>http_method\<close>) and \<open>request.url.path\<close>.\<close>

record request =
  http_method :: string
  path :: string

record response =
  status_code :: int

text \<open>
  \<open>dispatch\<close>. \<open>time1\<close> and \<open>time2\<close> are what \<open>time.time()\<close> returns at the first and
  at the second call; \<open>call_next request\<close> is what \<open>await call_next(request)\<close> returns
  (\<open>Inr\<close>) or raises (\<open>Inl\<close>). The \<open>except\<close> clause logs and raises again, the
  \<open>finally\<close> clause runs on every way out, and \<open>'response' in locals()\<close> holds exactly
  when the call returned.
\<close>

definition dispatch ::
  "real \<Rightarrow> real \<Rightarrow> request \<Rightarrow> (request \<Rightarrow> exn + response) \<Rightarrow> log_entry list
     \<Rightarrow> (exn + response) \<times> log_entry list" where
  "dispatch time1 time2 request call_next entries =
     (let start_time = time1;
          called = call_next request;
          entries1 =
            (case called of
               Inl e \<Rightarrow>
                 if isinstance_Exception e
                 then logger_log ''API'' (''ERROR: Exception during request processing: '' @ str_exn e) entries
                 else entries
             | Inr response \<Rightarrow> entries);
          process_time = time2 - start_time;
          entries2 =
            (if path request \<noteq> ''/health''
             then logger_log ''API''
                    (http_method request @ '' '' @ path request @ '' - ''
                       @ (case called of Inr response \<Rightarrow> str_int (status_code response) | Inl e \<Rightarrow> ''500'')
                       @ '' - '' @ format_2f process_time @ ''s'')
                    entries1
             else entries1)
      in (called, entries2))"

text \<open>A log line carries the error marker when its message starts with it.\<close>

definition error_marked :: "log_entry \<Rightarrow> bool" where
  "error_marked entry = prefix ''ERROR:'' (snd entry)"

section \<open>The lifecycle manager (\<open>main.py\<close>, \<open>lifespan\<close>)\<close>

text \<open>
  The calls \<open>lifespan\<close> makes, in the order it makes them; \<open>Yield\<close> is the point where
  the context manager hands control to the host, which then serves requests.
\<close>

datatype event =
  SetupDatabase | CreateTask | Yield | CancelTask | AwaitTask | CloseClient | TeardownDatabase

record world =
  http_client :: http_state
  calls :: "event list"

definition note_call :: "event \<Rightarrow> world \<Rightarrow> world" where
  "note_call ev w = w\<lparr>calls := calls w @ [ev]\<rparr>"

text \<open>
  The body of \<open>lifespan\<close> before the \<open>yield\<close>. \<open>setup_database\<close> is the outcome of
  \<open>await setup_database()\<close>: \<open>None\<close> when it completes, \<open>Some e\<close> when it raises \<open>e\<close>.
\<close>

definition lifespan_enter :: "exn option \<Rightarrow> world \<Rightarrow> (exn + unit) \<times> world" where
  "lifespan_enter setup_database w =
     (let w1 = note_call SetupDatabase w
      in case setup_database of
           Some e \<Rightarrow> (Inl e, w1)
         | None \<Rightarrow> (Inr (), note_call Yield (note_call CreateTask w1)))"

text \<open>\<open>try: await cleanup_task except asyncio.CancelledError: pass\<close>\<close>

definition except_CancelledError :: "exn option \<Rightarrow> exn option" where
  "except_CancelledError raised =
     (case raised of
        None \<Rightarrow> None
      | Some e \<Rightarrow> if e = CancelledError then None else Some e)"

text \<open>
  The body of \<open>lifespan\<close> after the \<open>yield\<close>. \<open>cleanup_task\<close>, \<open>aclose\<close> and
  \<open>teardown_database\<close> are the outcomes of \<open>await cleanup_task\<close>, of the transport's
  \<open>aclose()\<close> inside \<open>http_client.close()\<close>, and of \<open>await teardown_database()\<close>. There
  is no \<open>finally\<close>: an exception that is not caught leaves the function at once.
\<close>

definition lifespan_exit ::
  "exn option \<Rightarrow> exn option \<Rightarrow> exn option \<Rightarrow> world \<Rightarrow> (exn + unit) \<times> world" where
  "lifespan_exit cleanup_task aclose teardown_database w =
     (let w1 = note_call CancelTask w;
          w2 = note_call AwaitTask w1
      in case except_CancelledError cleanup_task of
           Some e \<Rightarrow> (Inl e, w2)
         | None \<Rightarrow>
             (let w3 = note_call CloseClient w2;
                  (closed, h) = close aclose (http_client w3);
                  w4 = w3\<lparr>http_client := h\<rparr>
              in case closed of
                   Inl e \<Rightarrow> (Inl e, w4)
                 | Inr u \<Rightarrow>
                     (let w5 = note_call TeardownDatabase w4
                      in case teardown_database of
                           Some e \<Rightarrow> (Inl e, w5)
                         | None \<Rightarrow> (Inr (), w5))))"

text \<open>The calls one run of the shutdown part adds to the record.\<close>

definition shutdown_steps :: "exn option \<Rightarrow> exn option \<Rightarrow> exn option \<Rightarrow> world \<Rightarrow> event list" where
  "shutdown_steps cleanup_task aclose teardown_database w =
     drop (length (calls w)) (calls (snd (lifespan_exit cleanup_task aclose teardown_database w)))"

definition startup_steps :: "exn option \<Rightarrow> world \<Rightarrow> event list" where
  "startup_steps setup_database w =
     drop (length (calls w)) (calls (snd (lifespan_enter setup_database w)))"

section \<open>Verification\<close>

subsection \<open>Facts about the accessor\<close>

lemma get_client_existing:
  "client st = Some c \<Longrightarrow> get_client constructor P st = (Inr c, st)"
  by (simp add: get_client_def)

lemma get_client_fresh:
  "client st = None \<Longrightarrow>
   get_client None P st =
     (Inr (length (heap st)),
      st\<lparr>client := Some (length (heap st)), heap := heap st @ [new_async_client P]\<rparr>)"
  by (simp add: get_client_def Let_def)

lemma get_client_refused:
  "client st = None \<Longrightarrow> get_client (Some e) P st = (Inl e, st)"
  by (simp add: get_client_def)

lemma perform_existing:
  "client st = Some c \<Longrightarrow> perform P cg cp constructor x st = (reply_with cg cp c x, st)"
  by (cases x) (simp_all add: get_def post_def get_client_existing)

lemma perform_fresh:
  "client st = None \<Longrightarrow>
   perform P cg cp None x st =
     (reply_with cg cp (length (heap st)) x,
      st\<lparr>client := Some (length (heap st)), heap := heap st @ [new_async_client P]\<rparr>)"
  by (cases x) (simp_all add: get_def post_def get_client_fresh)

lemma perform_refused:
  "client st = None \<Longrightarrow> perform P cg cp (Some e) x st = (Inl e, st)"
  by (cases x) (simp_all add: get_def post_def get_client_refused)

lemma perform_all_existing:
  "client st = Some c \<Longrightarrow>
   perform_all P cg cp xs st = (map (reply_with cg cp c) (map snd xs), st)"
  by (induction xs) (auto simp: perform_existing)

lemma perform_all_fresh:
  assumes "client st = None"
  shows "perform_all P cg cp ((None, x) # xs) st =
     (map (reply_with cg cp (length (heap st))) (x # map snd xs),
      st\<lparr>client := Some (length (heap st)), heap := heap st @ [new_async_client P]\<rparr>)"
proof -
  let ?st1 = "st\<lparr>client := Some (length (heap st)), heap := heap st @ [new_async_client P]\<rparr>"
  have "client ?st1 = Some (length (heap st))" by simp
  then have "perform_all P cg cp xs ?st1 =
      (map (reply_with cg cp (length (heap st))) (map snd xs), ?st1)"
    by (rule perform_all_existing)
  with assms show ?thesis
    by (simp add: perform_fresh)
qed

lemma perform_all_refused:
  assumes "client st = None" and "\<forall>k\<in>set xs. fst k \<noteq> None"
  shows "perform_all P cg cp xs st = (map (\<lambda>k. Inl (the (fst k))) xs, st)"
  using assms
proof (induction xs)
  case Nil
  then show ?case by simp
next
  case (Cons k ks)
  obtain constructor x where k: "k = (constructor, x)" by (cases k)
  with Cons.prems obtain e where e: "constructor = Some e" by auto
  from Cons have "perform_all P cg cp ks st = (map (\<lambda>k. Inl (the (fst k))) ks, st)"
    by simp
  with k e Cons.prems(1) show ?case
    by (simp add: perform_refused)
qed

lemma perform_all_at_most_one:
  "length (heap (snd (perform_all P cg cp xs st))) \<le> length (heap st) + 1"
proof (induction xs arbitrary: st)
  case Nil
  show ?case by simp
next
  case (Cons k ks)
  obtain constructor x where k: "k = (constructor, x)" by (cases k)
  show ?case
  proof (cases "client st")
    case (Some c)
    then show ?thesis by (simp add: perform_all_existing)
  next
    case None
    note no_handle = this
    show ?thesis
    proof (cases constructor)
      case None
      with no_handle k show ?thesis
        by (simp add: perform_all_fresh del: perform_all.simps)
    next
      case (Some e)
      with no_handle k Cons [of st] show ?thesis
        by (simp add: perform_refused case_prod_beta)
    qed
  qed
qed

lemma close_without_handle: "client st = None \<Longrightarrow> close aclose st = (Inr (), st)"
  by (simp add: close_def)

lemma close_returns:
  assumes "close aclose st = (Inr (), st1)"
  shows "client st1 = None" and "length (heap st1) = length (heap st)"
  using assms by (auto simp: close_def Let_def split: option.splits)

lemma close_raises:
  assumes "client st = Some c"
  shows "close (Some e) st =
     (Inl e, st\<lparr>heap := (heap st)[c := (heap st ! c)\<lparr>aclose_called := True\<rparr>]\<rparr>)"
  using assms by (simp add: close_def Let_def)

subsection \<open>Facts about the middleware\<close>

lemma digit_not_minus: "d < 10 \<Longrightarrow> CHR ''-'' \<noteq> digit d"
proof -
  assume "d < 10"
  then have "d \<in> {0, 1, 2, 3, 4, 5, 6, 7, 8, 9}" by auto
  then show ?thesis by (auto simp: digit_def)
qed

lemma str_nat_no_minus: "CHR ''-'' \<notin> set (str_nat n)"
proof (induction n rule: str_nat.induct)
  case (1 n)
  show ?case
  proof (cases "n < 10")
    case True
    then show ?thesis
      by (subst str_nat.simps) (simp add: digit_not_minus)
  next
    case False
    have "n mod 10 < 10" by simp
    with False 1 show ?thesis
      by (subst str_nat.simps) (simp add: digit_not_minus)
  qed
qed

lemma format_2f_no_minus: "0 \<le> x \<Longrightarrow> CHR ''-'' \<notin> set (format_2f x)"
proof -
  assume "0 \<le> x"
  have a: "n mod 100 div 10 < 10" for n :: nat
    by (simp add: less_mult_imp_div_less)
  have b: "n mod 10 < 10" for n :: nat by simp
  show ?thesis
    using \<open>0 \<le> x\<close>
    by (simp add: format_2f_def Let_def str_nat_no_minus digit_not_minus [OF a] digit_not_minus [OF b])
qed

lemma timing_line_not_error_marked:
  assumes "CHR '':'' \<notin> set m"
  shows "\<not> error_marked (lvl, m @ '' '' @ rest)"
proof
  assume "error_marked (lvl, m @ '' '' @ rest)"
  then have "prefix ''ERROR:'' (m @ '' '' @ rest)"
    by (simp add: error_marked_def)
  then consider "prefix ''ERROR:'' m" | us where "''ERROR:'' = m @ us" "prefix us ('' '' @ rest)"
    by (auto simp: prefix_append)
  then show False
  proof cases
    case 1
    then have "set ''ERROR:'' \<subseteq> set m" by (rule set_mono_prefix)
    with assms show False by simp
  next
    case 2
    show False
    proof (cases us)
      case Nil
      with 2(1) assms show False by auto
    next
      case (Cons u us')
      with 2(2) have "u = CHR '' ''" by simp
      with Cons 2(1) have "CHR '' '' \<in> set ''ERROR:''"
        by (metis in_set_conv_decomp)
      then show False by simp
    qed
  qed
qed

lemma error_line_error_marked:
  "error_marked (lvl, ''ERROR: Exception during request processing: '' @ s)"
  by (simp add: error_marked_def)

lemma dispatch_returns:
  "call_next req = Inr resp \<Longrightarrow>
   dispatch t1 t2 req call_next es =
     (Inr resp,
      if path req \<noteq> ''/health''
      then es @ [(''API'', http_method req @ '' '' @ path req @ '' - '' @ str_int (status_code resp)
                    @ '' - '' @ format_2f (t2 - t1) @ ''s'')]
      else es)"
  by (simp add: dispatch_def logger_log_def)

lemma dispatch_raises:
  "call_next req = Inl e \<Longrightarrow>
   dispatch t1 t2 req call_next es =
     (Inl e,
      es @ (if isinstance_Exception e
            then [(''API'', ''ERROR: Exception during request processing: '' @ str_exn e)] else [])
         @ (if path req \<noteq> ''/health''
            then [(''API'', http_method req @ '' '' @ path req @ '' - 500 - '' @ format_2f (t2 - t1) @ ''s'')]
            else []))"
  by (simp add: dispatch_def logger_log_def)

lemma str_int_200: "str_int 200 = ''200''"
  by (simp add: str_int_def str_nat.simps digit_def)

subsection \<open>Facts about the lifecycle manager\<close>

lemma except_CancelledError_simps:
  "except_CancelledError None = None"
  "except_CancelledError (Some CancelledError) = None"
  "e \<noteq> CancelledError \<Longrightarrow> except_CancelledError (Some e) = Some e"
  by (simp_all add: except_CancelledError_def)

lemma lifespan_exit_propagates:
  "except_CancelledError ct = Some e \<Longrightarrow>
   lifespan_exit ct ac td w = (Inl e, w\<lparr>calls := calls w @ [CancelTask, AwaitTask]\<rparr>)"
  by (simp add: lifespan_exit_def note_call_def)

lemma lifespan_exit_close_raises:
  "except_CancelledError ct = None \<Longrightarrow> close ac (http_client w) = (Inl e, h) \<Longrightarrow>
   lifespan_exit ct ac td w =
     (Inl e, w\<lparr>http_client := h, calls := calls w @ [CancelTask, AwaitTask, CloseClient]\<rparr>)"
  by (simp add: lifespan_exit_def note_call_def)

lemma lifespan_exit_complete:
  "except_CancelledError ct = None \<Longrightarrow> close ac (http_client w) = (Inr (), h) \<Longrightarrow>
   lifespan_exit ct ac td w =
     ((case td of Some e \<Rightarrow> Inl e | None \<Rightarrow> Inr ()),
      w\<lparr>http_client := h, calls := calls w @ [CancelTask, AwaitTask, CloseClient, TeardownDatabase]\<rparr>)"
  by (cases td) (simp_all add: lifespan_exit_def note_call_def)

lemma close_result_cases:
  obtains (returned) h where "close ac st = (Inr (), h)"
  | (raised) e h where "close ac st = (Inl e, h)" "client st \<noteq> None" "ac = Some e"
  by (cases "client st"; cases ac) (auto simp: close_def Let_def)

lemma shutdown_steps_cases:
  "shutdown_steps ct ac td w =
     (if except_CancelledError ct \<noteq> None then [CancelTask, AwaitTask]
      else if client (http_client w) \<noteq> None \<and> ac \<noteq> None then [CancelTask, AwaitTask, CloseClient]
      else [CancelTask, AwaitTask, CloseClient, TeardownDatabase])"
proof (cases "except_CancelledError ct")
  case (Some e)
  then show ?thesis
    by (simp add: shutdown_steps_def lifespan_exit_propagates)
next
  case None
  show ?thesis
  proof (cases rule: close_result_cases [of ac "http_client w"])
    case (returned h)
    then have "client (http_client w) = None \<or> ac = None"
      by (auto simp: close_def Let_def split: option.splits)
    with None returned show ?thesis
      by (auto simp: shutdown_steps_def lifespan_exit_complete)
  next
    case (raised e h)
    with None show ?thesis
      by (simp add: shutdown_steps_def lifespan_exit_close_raises)
  qed
qed

lemma lifespan_exit_calls:
  "calls (snd (lifespan_exit ct ac td w)) = calls w @ shutdown_steps ct ac td w"
proof (cases "except_CancelledError ct")
  case (Some e)
  then show ?thesis
    by (simp add: shutdown_steps_def lifespan_exit_propagates)
next
  case None
  show ?thesis
  proof (cases rule: close_result_cases [of ac "http_client w"])
    case (returned h)
    with None show ?thesis
      by (simp add: shutdown_steps_def lifespan_exit_complete)
  next
    case (raised e h)
    with None show ?thesis
      by (simp add: shutdown_steps_def lifespan_exit_close_raises)
  qed
qed

subsection \<open>The shared HTTP client\<close>

text \<open>
  C3: in a sequence of calls to \<open>get_client()\<close>, \<open>get()\<close> and \<open>post()\<close> with no \<open>close()\<close>
  in between, at most one transport handle is constructed. Started without a handle, a
  first call whose constructor returns constructs the handle (the store grows by one
  object), and every call, the first included, works on that same handle, with no other
  constructor call. Started with a handle, no call constructs anything. While the
  constructor raises, each call raises that exception and leaves the state without a
  handle.
\<close>

theorem singleton_handle:
  "(client st = None \<longrightarrow>
      perform_all P cg cp ((None, x) # xs) st =
        (map (reply_with cg cp (length (heap st))) (x # map snd xs),
         st\<lparr>client := Some (length (heap st)), heap := heap st @ [new_async_client P]\<rparr>)
      \<and> length (heap (snd (perform_all P cg cp ((None, x) # xs) st))) = length (heap st) + 1)
   \<and> (client st = Some c \<longrightarrow>
      perform_all P cg cp xs st = (map (reply_with cg cp c) (map snd xs), st))
   \<and> (client st = None \<and> (\<forall>k\<in>set xs. fst k \<noteq> None) \<longrightarrow>
      perform_all P cg cp xs st = (map (\<lambda>k. Inl (the (fst k))) xs, st))
   \<and> length (heap (snd (perform_all P cg cp xs st))) \<le> length (heap st) + 1"
  using perform_all_at_most_one [of P cg cp xs st]
  by (simp add: perform_all_fresh perform_all_existing perform_all_refused del: perform_all.simps)

theorem singleton_handle_witness:
  "perform_all None (\<lambda>c url kw. Inr (c, url)) (\<lambda>c url kw. Inl (Exception url))
     [(None, Get ''http://a'' ()), (Some (Exception ''not reached''), GetClient),
      (None, Post ''http://b'' ()), (None, GetClient)] initial_http
   = ([Inr (Response (0, ''http://a'')), Inr (Handle 0), Inl (Exception ''http://b''), Inr (Handle 0)],
      \<lparr>client = Some 0, heap = [new_async_client None]\<rparr>)
   \<and> perform_all None (\<lambda>c url kw. Inr (c, url)) (\<lambda>c url kw. Inl (Exception url))
     [(None, GetClient), (None, Get ''http://a'' ())] \<lparr>client = Some 0, heap = [new_async_client None]\<rparr>
   = ([Inr (Handle 0), Inr (Response (0, ''http://a''))], \<lparr>client = Some 0, heap = [new_async_client None]\<rparr>)
   \<and> perform_all (Some ''ftp://proxy:8080'') (\<lambda>c url kw. Inr (c, url)) (\<lambda>c url kw. Inl (Exception url))
     [(Some (Exception ''Unknown scheme for proxy URL''), Get ''http://a'' ())] initial_http
   = ([Inl (Exception ''Unknown scheme for proxy URL'')], initial_http)"
  using singleton_handle [of initial_http None "\<lambda>c url kw. Inr (c, url)" "\<lambda>c url kw. Inl (Exception url)"
      "Get ''http://a'' ()"
      "[(Some (Exception ''not reached''), GetClient), (None, Post ''http://b'' ()), (None, GetClient)]" 0]
    singleton_handle [of "\<lparr>client = Some 0, heap = [new_async_client None]\<rparr>" None
      "\<lambda>c url kw. Inr (c, url)" "\<lambda>c url kw. Inl (Exception url)" "GetClient"
      "[(None, GetClient), (None, Get ''http://a'' ())]" 0]
    singleton_handle [of initial_http "Some ''ftp://proxy:8080''"
      "\<lambda>c url kw. Inr (c, url)" "\<lambda>c url kw. Inl (Exception url)" "GetClient"
      "[(Some (Exception ''Unknown scheme for proxy URL''), Get ''http://a'' ())]" 0]
  by (simp add: initial_http_def)

text \<open>
  A sequence need not construct any handle: with a proxy URL that httpx refuses, the
  constructor raises at every call, the first call constructs nothing, and after two
  calls there is still no handle.
\<close>

theorem singleton_handle_counterexample:
  "perform_all (Some ''ftp://proxy:8080'') (\<lambda>c url kw. Inr ()) (\<lambda>c url kw. Inr ())
     [(Some (Exception ''Unknown scheme for proxy URL''), GetClient),
      (Some (Exception ''Unknown scheme for proxy URL''), Get ''http://a'' ())] initial_http
   = ([Inl (Exception ''Unknown scheme for proxy URL''), Inl (Exception ''Unknown scheme for proxy URL'')],
      \<lparr>client = None, heap = []\<rparr>)"
  by (simp add: initial_http_def get_client_def get_def)

text \<open>
  C4: after a \<open>close()\<close> that returned, the attribute is \<open>None\<close>, and the next call of
  the accessor runs the constructor. When the constructor returns, \<open>get_client()\<close> stores
  and returns a new handle: a new object of the store, not the one held before the
  close, on which \<open>aclose\<close> has not been called; \<open>get()\<close> and \<open>post()\<close> store it too and send
  their request on it, and so does every call of a later sequence of calls. When the
  constructor raises, the call raises that exception and the state stays without a
  handle: the handle held before the close is never returned.
\<close>

theorem rearm_after_close:
  assumes "wf_http st" and "close aclose st = (Inr (), st1)"
  shows "client st1 = None
     \<and> client st \<noteq> Some (length (heap st))
     \<and> get_client None P st1 =
         (Inr (length (heap st)),
          st1\<lparr>client := Some (length (heap st)), heap := heap st1 @ [new_async_client P]\<rparr>)
     \<and> (heap st1 @ [new_async_client P]) ! length (heap st) = new_async_client P
     \<and> \<not> aclose_called (new_async_client P)
     \<and> get None P cg url kwargs st1 =
         (cg (length (heap st)) url kwargs,
          st1\<lparr>client := Some (length (heap st)), heap := heap st1 @ [new_async_client P]\<rparr>)
     \<and> post None P cp url kwargs st1 =
         (cp (length (heap st)) url kwargs,
          st1\<lparr>client := Some (length (heap st)), heap := heap st1 @ [new_async_client P]\<rparr>)
     \<and> perform_all P cg cp ((None, x) # xs) st1 =
         (map (reply_with cg cp (length (heap st))) (x # map snd xs),
          st1\<lparr>client := Some (length (heap st)), heap := heap st1 @ [new_async_client P]\<rparr>)
     \<and> get_client (Some e) P st1 = (Inl e, st1)
     \<and> get (Some e) P cg url kwargs st1 = (Inl e, st1)
     \<and> post (Some e) P cp url kwargs st1 = (Inl e, st1)"
proof -
  have none: "client st1 = None" and len: "length (heap st1) = length (heap st)"
    using close_returns [OF assms(2)] by simp_all
  have gc: "get_client None P st1 =
      (Inr (length (heap st)),
       st1\<lparr>client := Some (length (heap st)), heap := heap st1 @ [new_async_client P]\<rparr>)"
    using get_client_fresh [OF none, of P] len by simp
  have stale: "client st \<noteq> Some (length (heap st))"
    using assms(1) by (auto simp: wf_http_def)
  have nth: "(heap st1 @ [new_async_client P]) ! length (heap st) = new_async_client P"
    using len by (metis nth_append_length)
  have all: "perform_all P cg cp ((None, x) # xs) st1 =
         (map (reply_with cg cp (length (heap st))) (x # map snd xs),
          st1\<lparr>client := Some (length (heap st)), heap := heap st1 @ [new_async_client P]\<rparr>)"
    using perform_all_fresh [OF none, of P cg cp x xs] len by simp
  have refused: "get_client (Some e) P st1 = (Inl e, st1)"
    using none by (rule get_client_refused)
  have flag: "\<not> aclose_called (new_async_client P)"
    by (simp add: new_async_client_def)
  show ?thesis
    using none gc stale nth all refused flag
    by (simp add: get_def post_def)
qed

theorem rearm_after_close_witness:
  "wf_http \<lparr>client = Some 0, heap = [new_async_client None]\<rparr>
   \<and> close None \<lparr>client = Some 0, heap = [new_async_client None]\<rparr>
       = (Inr (), \<lparr>client = None, heap = [(new_async_client None)\<lparr>aclose_called := True\<rparr>]\<rparr>)
   \<and> get_client None None \<lparr>client = None, heap = [(new_async_client None)\<lparr>aclose_called := True\<rparr>]\<rparr>
       = (Inr 1, \<lparr>client = Some 1,
                  heap = [(new_async_client None)\<lparr>aclose_called := True\<rparr>, new_async_client None]\<rparr>)
   \<and> get None None (\<lambda>c url kw. Inr c) ''u'' ()
        \<lparr>client = None, heap = [(new_async_client None)\<lparr>aclose_called := True\<rparr>]\<rparr>
       = (Inr (1::nat), \<lparr>client = Some 1,
                  heap = [(new_async_client None)\<lparr>aclose_called := True\<rparr>, new_async_client None]\<rparr>)"
proof -
  have wf: "wf_http \<lparr>client = Some 0, heap = [new_async_client None]\<rparr>"
    by (simp add: wf_http_def)
  have cl: "close None \<lparr>client = Some 0, heap = [new_async_client None]\<rparr>
       = (Inr (), \<lparr>client = None, heap = [(new_async_client None)\<lparr>aclose_called := True\<rparr>]\<rparr>)"
    by (simp add: close_def)
  show ?thesis
    using wf cl
      rearm_after_close [OF wf cl, of None "\<lambda>c url kw. Inr c" "''u''" "()" "\<lambda>c url kw. Inr c"
        GetClient "[]" CancelledError]
    by simp
qed

text \<open>
  A call after a \<open>close()\<close> that returned need not construct a handle: the client was
  never opened, \<open>close()\<close> returns, and with a proxy URL that httpx refuses the
  constructor raises, so \<open>get_client()\<close> raises and there is still no handle.
\<close>

theorem rearm_after_close_counterexample:
  "close None initial_http = (Inr (), initial_http)
   \<and> get_client (Some (Exception ''Unknown scheme for proxy URL'')) (Some ''ftp://proxy:8080'')
        initial_http
       = (Inl (Exception ''Unknown scheme for proxy URL''), \<lparr>client = None, heap = []\<rparr>)"
  by (simp add: initial_http_def close_def get_client_def)

text \<open>
  C5: when \<open>get_client()\<close> finds no handle and returns one, the constructor has
  returned, and the handle is the new object of the store, constructed with a timeout of
  15 seconds, redirects followed, no bound on connections nor on keep-alive connections,
  and a proxy table exactly when \<open>PROXY_URL\<close> is set (not \<open>None\<close>, not empty): the table
  sends every scheme to \<open>PROXY_URL\<close>. Without it no scheme has a proxy.
\<close>

theorem get_client_configuration:
  assumes "client st = None" and "get_client constructor P st = (Inr c, st')"
  shows "constructor = None \<and> c = length (heap st) \<and> client st' = Some c
     \<and> heap st' = heap st @ [new_async_client P]
     \<and> timeout (heap st' ! c) = 15
     \<and> follow_redirects (heap st' ! c)
     \<and> max_connections (heap st' ! c) = None
     \<and> max_keepalive_connections (heap st' ! c) = None
     \<and> (truthy P \<longrightarrow>
          proxies (heap st' ! c) = Some [''all://'' \<mapsto> the P]
          \<and> proxy_for (heap st' ! c) scheme = P)
     \<and> (\<not> truthy P \<longrightarrow>
          proxies (heap st' ! c) = None
          \<and> proxy_for (heap st' ! c) scheme = None)"
proof -
  have k: "constructor = None"
    using assms by (cases constructor) (simp_all add: get_client_refused)
  have g: "get_client None P st = (Inr c, st')"
    using assms(2) unfolding k .
  have eq: "(Inr c :: exn + nat, st') =
      (Inr (length (heap st)),
       st\<lparr>client := Some (length (heap st)), heap := heap st @ [new_async_client P]\<rparr>)"
    by (rule trans [OF sym [OF g] get_client_fresh [OF assms(1)]])
  from eq have both: "Inr c = (Inr (length (heap st)) :: exn + nat)
      \<and> st' = st\<lparr>client := Some (length (heap st)), heap := heap st @ [new_async_client P]\<rparr>"
    by (simp only: prod.inject)
  from both have r: "c = length (heap st)" by simp
  from both have s: "st' = st\<lparr>client := Some (length (heap st)), heap := heap st @ [new_async_client P]\<rparr>"
    by (rule conjunct2)
  have "heap st' ! c = new_async_client P"
    unfolding r s by simp
  then show ?thesis
    using k r s by (cases P) (auto simp: new_async_client_def proxy_for_def)
qed

theorem get_client_configuration_witness:
  "client initial_http = None
   \<and> get_client None (Some ''http://proxy:8080'') initial_http
       = (Inr 0, \<lparr>client = Some 0, heap = [new_async_client (Some ''http://proxy:8080'')]\<rparr>)
   \<and> timeout ([new_async_client (Some ''http://proxy:8080'')] ! 0) = 15
   \<and> proxy_for ([new_async_client (Some ''http://proxy:8080'')] ! 0) ''https'' = Some ''http://proxy:8080''
   \<and> get_client None (Some []) initial_http
       = (Inr 0, \<lparr>client = Some 0, heap = [new_async_client (Some [])]\<rparr>)
   \<and> proxy_for ([new_async_client (Some [])] ! 0) ''https'' = None"
proof -
  have n: "client initial_http = None" by (simp add: initial_http_def)
  have g: "get_client None P initial_http = (Inr 0, \<lparr>client = Some 0, heap = [new_async_client P]\<rparr>)"
    for P
    by (simp add: get_client_def initial_http_def)
  show ?thesis
    using n g [of "Some ''http://proxy:8080''"] g [of "Some []"]
      get_client_configuration [OF n g [of "Some ''http://proxy:8080''"], of "''https''"]
      get_client_configuration [OF n g [of "Some []"], of "''https''"]
    by simp
qed

text \<open>
  C9: \<open>close()\<close> without a handle returns without raising and leaves the state as it
  was, whatever the transport would have done; and after a \<open>close()\<close> that returned, a
  second \<open>close()\<close> is such a call.
\<close>
theorem close_idempotent:
  "(client st = None \<longrightarrow> close aclose st = (Inr (), st))
   \<and> (close aclose st = (Inr (), st1) \<longrightarrow> close aclose2 st1 = (Inr (), st1))"
  using close_returns(1) [of aclose st st1] by (simp add: close_without_handle)

theorem close_idempotent_witness:
  "client initial_http = None
   \<and> close (Some (Exception ''unused'')) initial_http = (Inr (), initial_http)
   \<and> close None \<lparr>client = Some 0, heap = [new_async_client None]\<rparr>
       = (Inr (), \<lparr>client = None, heap = [(new_async_client None)\<lparr>aclose_called := True\<rparr>]\<rparr>)
   \<and> close (Some (Exception ''unused''))
         \<lparr>client = None, heap = [(new_async_client None)\<lparr>aclose_called := True\<rparr>]\<rparr>
       = (Inr (), \<lparr>client = None, heap = [(new_async_client None)\<lparr>aclose_called := True\<rparr>]\<rparr>)"
proof -
  have cl: "close None \<lparr>client = Some 0, heap = [new_async_client None]\<rparr>
       = (Inr (), \<lparr>client = None, heap = [(new_async_client None)\<lparr>aclose_called := True\<rparr>]\<rparr>)"
    by (simp add: close_def)
  have n: "client initial_http = None" by (simp add: initial_http_def)
  show ?thesis
    using n cl
      close_idempotent [of initial_http "Some (Exception ''unused'')"]
      close_idempotent [of "\<lparr>client = Some 0, heap = [new_async_client None]\<rparr>" None
        "\<lparr>client = None, heap = [(new_async_client None)\<lparr>aclose_called := True\<rparr>]\<rparr>"
        "Some (Exception ''unused'')"]
    by simp
qed

text \<open>
  C10: when the transport's \<open>aclose()\<close> raises, \<open>close()\<close> raises the same exception
  and the attribute still refers to the old handle, so the next \<open>get_client()\<close> returns
  that handle and constructs nothing. The attribute is reset exactly when \<open>aclose()\<close>
  completes.
\<close>
theorem close_failure_keeps_handle:
  assumes "client st = Some c"
  shows "fst (close (Some e) st) = Inl e
     \<and> client (snd (close (Some e) st)) = Some c
     \<and> get_client constructor P (snd (close (Some e) st)) = (Inr c, snd (close (Some e) st))
     \<and> length (heap (snd (close (Some e) st))) = length (heap st)
     \<and> (client (snd (close aclose st)) = None) = (aclose = None)"
  using assms
  by (cases aclose) (simp_all add: close_raises get_client_existing close_def Let_def)

theorem close_failure_keeps_handle_witness:
  "client \<lparr>client = Some 0, heap = [new_async_client None]\<rparr> = Some 0
   \<and> fst (close (Some (Exception ''reset'')) \<lparr>client = Some 0, heap = [new_async_client None]\<rparr>)
       = Inl (Exception ''reset'')
   \<and> fst (get_client (Some (Exception ''not reached'')) None
        (snd (close (Some (Exception ''reset'')) \<lparr>client = Some 0, heap = [new_async_client None]\<rparr>))) = Inr 0"
proof -
  have c: "client \<lparr>client = Some 0, heap = [new_async_client None]\<rparr> = Some 0" by simp
  show ?thesis
    using c close_failure_keeps_handle [OF c, of "Exception ''reset''" "Some (Exception ''not reached'')"
        None None]
    by simp
qed

subsection \<open>The request logging middleware\<close>

text \<open>
  C6: a request to \<open>/health\<close> whose handler returns adds nothing to the
  log. A request to any other path whose handler returns status 200 adds exactly one
  entry: method, path, \<open>200\<close> and the elapsed time, which is the difference of the two
  readings of \<open>time.time()\<close>; it is not negative, and is rendered without a minus sign,
  when the second reading is not below the first. A request to \<open>/health\<close> whose handler
  raises an \<open>Exception\<close> still adds the line with the error marker.
\<close>

theorem dispatch_success_logging:
  "(path req = ''/health'' \<and> call_next req = Inr resp \<longrightarrow>
      dispatch t1 t2 req call_next es = (Inr resp, es))
   \<and> (path req \<noteq> ''/health'' \<and> call_next req = Inr resp \<and> status_code resp = 200 \<longrightarrow>
      dispatch t1 t2 req call_next es =
        (Inr resp,
         es @ [(''API'', http_method req @ '' '' @ path req @ '' - 200 - '' @ format_2f (t2 - t1) @ ''s'')])
      \<and> (t1 \<le> t2 \<longrightarrow> 0 \<le> t2 - t1 \<and> CHR ''-'' \<notin> set (format_2f (t2 - t1))))
   \<and> (path req = ''/health'' \<and> call_next req = Inl e \<and> isinstance_Exception e \<longrightarrow>
      dispatch t1 t2 req call_next es =
        (Inl e, es @ [(''API'', ''ERROR: Exception during request processing: '' @ str_exn e)]))"
  by (auto simp: dispatch_returns dispatch_raises str_int_200 format_2f_no_minus)

theorem dispatch_success_logging_witness:
  "dispatch 1 (3 / 2) \<lparr>http_method = ''GET'', path = ''/health''\<rparr> (\<lambda>request. Inr \<lparr>status_code = 200\<rparr>) []
     = (Inr \<lparr>status_code = 200\<rparr>, [])
   \<and> dispatch 1 (3 / 2) \<lparr>http_method = ''GET'', path = ''/manifest.json''\<rparr>
        (\<lambda>request. Inr \<lparr>status_code = 200\<rparr>) []
     = (Inr \<lparr>status_code = 200\<rparr>, [(''API'', ''GET /manifest.json - 200 - 0.50s'')])
   \<and> (1::real) \<le> 3 / 2 \<and> CHR ''-'' \<notin> set (format_2f (3 / 2 - 1))
   \<and> dispatch 1 (3 / 2) \<lparr>http_method = ''GET'', path = ''/health''\<rparr>
        (\<lambda>request. Inl (Exception ''no database'')) []
     = (Inl (Exception ''no database''),
        [(''API'', ''ERROR: Exception during request processing: no database'')])"
proof -
  have f: "format_2f (3 / 2 - 1) = ''0.50''"
    by (simp add: format_2f_def round_half_even_def str_nat.simps digit_def)
  show ?thesis
    using f
      dispatch_success_logging [of "\<lparr>http_method = ''GET'', path = ''/health''\<rparr>"
        "\<lambda>request. Inr \<lparr>status_code = 200\<rparr>" "\<lparr>status_code = 200\<rparr>" 1 "3 / 2" "[]"]
      dispatch_success_logging [of "\<lparr>http_method = ''GET'', path = ''/manifest.json''\<rparr>"
        "\<lambda>request. Inr \<lparr>status_code = 200\<rparr>" "\<lparr>status_code = 200\<rparr>" 1 "3 / 2" "[]"]
      dispatch_success_logging [of "\<lparr>http_method = ''GET'', path = ''/health''\<rparr>"
        "\<lambda>request. Inl (Exception ''no database'')" "\<lparr>status_code = 200\<rparr>" 1 "3 / 2" "[]"
        "Exception ''no database''"]
    by simp
qed

text \<open>
  Without the condition on the clock the sentence fails: \<open>time.time()\<close> is the wall
  clock, which can be set back between the two readings. Here it reads 2, then 1, and
  the entry logged for a status 200 carries the elapsed time \<open>-1.00\<close>.
\<close>

theorem dispatch_negative_elapsed_counterexample:
  "dispatch 2 1 \<lparr>http_method = ''GET'', path = ''/stream''\<rparr> (\<lambda>request. Inr \<lparr>status_code = 200\<rparr>) []
   = (Inr \<lparr>status_code = 200\<rparr>, [(''API'', ''GET /stream - 200 - -1.00s'')])"
  by (simp add: dispatch_def logger_log_def format_2f_def round_half_even_def str_int_def
        str_nat.simps digit_def)

text \<open>
  C7: whatever the handler raises, \<open>dispatch\<close> raises the same object. When
  it is an instance of \<open>Exception\<close>, the log gains the line with the error marker, and
  for every path but \<open>/health\<close> the timing line after it, whose status reads \<open>500\<close>:
  exactly one of the new lines carries the marker. When it is not an instance of
  \<open>Exception\<close>, the \<open>except\<close> clause does not run and no new line carries the marker.
  The count reads the marker at the start of a message, so it is stated for a request
  method without a colon, as every HTTP method token is.
\<close>

theorem dispatch_handler_raises:
  assumes "call_next req = Inl e"
  shows "fst (dispatch t1 t2 req call_next es) = Inl e
     \<and> snd (dispatch t1 t2 req call_next es) =
         es @ (if isinstance_Exception e
               then [(''API'', ''ERROR: Exception during request processing: '' @ str_exn e)] else [])
            @ (if path req \<noteq> ''/health''
               then [(''API'', http_method req @ '' '' @ path req @ '' - 500 - '' @ format_2f (t2 - t1) @ ''s'')]
               else [])
     \<and> (isinstance_Exception e \<and> CHR '':'' \<notin> set (http_method req) \<longrightarrow>
          length (filter error_marked (drop (length es) (snd (dispatch t1 t2 req call_next es)))) = 1)
     \<and> (\<not> isinstance_Exception e \<and> CHR '':'' \<notin> set (http_method req) \<longrightarrow>
          filter error_marked (drop (length es) (snd (dispatch t1 t2 req call_next es))) = [])"
proof -
  define err where "err = (''API'', ''ERROR: Exception during request processing: '' @ str_exn e)"
  define tim where
    "tim = (''API'', http_method req @ '' '' @ path req @ '' - 500 - '' @ format_2f (t2 - t1) @ ''s'')"
  have d: "dispatch t1 t2 req call_next es =
      (Inl e, es @ (if isinstance_Exception e then [err] else [])
                 @ (if path req \<noteq> ''/health'' then [tim] else []))"
    unfolding err_def tim_def using assms by (rule dispatch_raises)
  have em: "error_marked err"
    unfolding err_def by (rule error_line_error_marked)
  have nm: "\<not> error_marked tim" if "CHR '':'' \<notin> set (http_method req)"
    unfolding tim_def using that by (rule timing_line_not_error_marked)
  have 1: "fst (dispatch t1 t2 req call_next es) = Inl e"
    by (simp add: d)
  have 2: "snd (dispatch t1 t2 req call_next es) =
         es @ (if isinstance_Exception e
               then [(''API'', ''ERROR: Exception during request processing: '' @ str_exn e)] else [])
            @ (if path req \<noteq> ''/health''
               then [(''API'', http_method req @ '' '' @ path req @ '' - 500 - '' @ format_2f (t2 - t1) @ ''s'')]
               else [])"
    unfolding d err_def tim_def by simp
  have 3: "isinstance_Exception e \<and> CHR '':'' \<notin> set (http_method req) \<longrightarrow>
          length (filter error_marked (drop (length es) (snd (dispatch t1 t2 req call_next es)))) = 1"
    using em nm by (simp add: d)
  have 4: "\<not> isinstance_Exception e \<and> CHR '':'' \<notin> set (http_method req) \<longrightarrow>
          filter error_marked (drop (length es) (snd (dispatch t1 t2 req call_next es))) = []"
    using nm by (simp add: d)
  from 1 2 3 4 show ?thesis by blast
qed

theorem dispatch_handler_raises_witness:
  "dispatch 1 2 \<lparr>http_method = ''GET'', path = ''/stream''\<rparr> (\<lambda>request. Inl (Exception ''boom'')) []
     = (Inl (Exception ''boom''),
        [(''API'', ''ERROR: Exception during request processing: boom''),
         (''API'', ''GET /stream - 500 - 1.00s'')])
   \<and> length (filter error_marked
        (snd (dispatch 1 2 \<lparr>http_method = ''GET'', path = ''/stream''\<rparr> (\<lambda>request. Inl (Exception ''boom'')) [])))
     = 1"
proof -
  have f: "format_2f (2 - 1) = ''1.00''"
    by (simp add: format_2f_def round_half_even_def str_nat.simps digit_def)
  show ?thesis
    using f
      dispatch_handler_raises [of "\<lambda>request. Inl (Exception ''boom'')"
        "\<lparr>http_method = ''GET'', path = ''/stream''\<rparr>" "Exception ''boom''" 1 2 "[]"]
    by (simp add: prod_eq_iff error_marked_def)
qed

text \<open>
  For every raised object the sentence fails: a handler that raises
  \<open>asyncio.CancelledError\<close> passes the clause \<open>except Exception\<close>, and the only line
  logged is the timing line.
\<close>

theorem dispatch_cancelled_counterexample:
  "dispatch 1 2 \<lparr>http_method = ''GET'', path = ''/stream''\<rparr> (\<lambda>request. Inl CancelledError) []
     = (Inl CancelledError, [(''API'', ''GET /stream - 500 - 1.00s'')])
   \<and> filter error_marked [(''API'', ''GET /stream - 500 - 1.00s'')] = []"
  by (simp add: dispatch_def logger_log_def format_2f_def round_half_even_def
        str_nat.simps digit_def error_marked_def)

subsection \<open>The lifecycle manager\<close>

text \<open>
  C1: the calls of a shutdown are made in the order cancel, await, close
  client, teardown database, and they are an initial part of that sequence which
  holds at least cancel and await. All four are made when the await of the sweeper
  returns or raises \<open>CancelledError\<close> and the close of the client does not raise.
\<close>

theorem shutdown_order:
  "calls (snd (lifespan_exit ct ac td w)) = calls w @ shutdown_steps ct ac td w
   \<and> prefix [CancelTask, AwaitTask] (shutdown_steps ct ac td w)
   \<and> prefix (shutdown_steps ct ac td w) [CancelTask, AwaitTask, CloseClient, TeardownDatabase]
   \<and> ((ct = None \<or> ct = Some CancelledError) \<and> (client (http_client w) = None \<or> ac = None) \<longrightarrow>
        shutdown_steps ct ac td w = [CancelTask, AwaitTask, CloseClient, TeardownDatabase])"
proof -
  have "ct = None \<or> ct = Some CancelledError \<Longrightarrow> except_CancelledError ct = None"
    by (auto simp: except_CancelledError_def)
  then show ?thesis
    by (auto simp: lifespan_exit_calls shutdown_steps_cases)
qed

theorem shutdown_order_witness:
  "shutdown_steps (Some CancelledError) None (Some (Exception ''teardown failed''))
     \<lparr>http_client = \<lparr>client = Some 0, heap = [new_async_client None]\<rparr>, calls = [SetupDatabase, CreateTask, Yield]\<rparr>
     = [CancelTask, AwaitTask, CloseClient, TeardownDatabase]
   \<and> calls (snd (lifespan_exit (Some CancelledError) None (Some (Exception ''teardown failed''))
       \<lparr>http_client = \<lparr>client = Some 0, heap = [new_async_client None]\<rparr>, calls = [SetupDatabase, CreateTask, Yield]\<rparr>))
     = [SetupDatabase, CreateTask, Yield, CancelTask, AwaitTask, CloseClient, TeardownDatabase]"
  using shutdown_order [of "Some CancelledError" None "Some (Exception ''teardown failed'')"
      "\<lparr>http_client = \<lparr>client = Some 0, heap = [new_async_client None]\<rparr>, calls = [SetupDatabase, CreateTask, Yield]\<rparr>"]
  by simp

text \<open>
  Not every shutdown makes the four calls: when the sweeper has failed, its await
  raises that exception, nothing catches it, and the shutdown ends after two calls.
\<close>

theorem shutdown_order_counterexample:
  "shutdown_steps (Some (Exception ''database is locked'')) None None
     \<lparr>http_client = initial_http, calls = []\<rparr> = [CancelTask, AwaitTask]
   \<and> shutdown_steps (Some (Exception ''database is locked'')) None None
     \<lparr>http_client = initial_http, calls = []\<rparr> \<noteq> [CancelTask, AwaitTask, CloseClient, TeardownDatabase]"
  by (simp add: shutdown_steps_def lifespan_exit_def except_CancelledError_def note_call_def)

text \<open>
  C2: a \<open>CancelledError\<close> from the await of the sweeper is swallowed, the
  shutdown goes on as if the await had returned: the client is closed, and the database
  torn down when that close does not raise. Any other exception from the await leaves
  \<open>lifespan\<close> at once: it is raised to the host, and neither the close of the client nor
  the database teardown is called.
\<close>

theorem sweeper_await_outcomes:
  "lifespan_exit (Some CancelledError) ac td w = lifespan_exit None ac td w
   \<and> prefix [CancelTask, AwaitTask, CloseClient] (shutdown_steps (Some CancelledError) ac td w)
   \<and> (client (http_client w) = None \<or> ac = None \<longrightarrow>
        shutdown_steps (Some CancelledError) ac td w = [CancelTask, AwaitTask, CloseClient, TeardownDatabase])
   \<and> (e \<noteq> CancelledError \<longrightarrow>
        lifespan_exit (Some e) ac td w = (Inl e, w\<lparr>calls := calls w @ [CancelTask, AwaitTask]\<rparr>))"
proof -
  have swallowed: "lifespan_exit (Some CancelledError) ac td w = lifespan_exit None ac td w"
    by (simp add: lifespan_exit_def except_CancelledError_def)
  show ?thesis
    unfolding swallowed
    by (auto simp: shutdown_steps_cases except_CancelledError_simps lifespan_exit_propagates)
qed

theorem sweeper_await_outcomes_witness:
  "shutdown_steps (Some CancelledError) None None \<lparr>http_client = initial_http, calls = []\<rparr>
     = [CancelTask, AwaitTask, CloseClient, TeardownDatabase]
   \<and> Exception ''boom'' \<noteq> CancelledError
   \<and> lifespan_exit (Some (Exception ''boom'')) None None \<lparr>http_client = initial_http, calls = []\<rparr>
     = (Inl (Exception ''boom''), \<lparr>http_client = initial_http, calls = [CancelTask, AwaitTask]\<rparr>)"
  using sweeper_await_outcomes [of None None "\<lparr>http_client = initial_http, calls = []\<rparr>" "Exception ''boom''"]
  by simp

text \<open>
  The remaining steps do not run after an error of the sweeper: the client still
  holds its handle, on which \<open>aclose\<close> was not called, and the record of calls ends
  with the await.
\<close>

theorem sweeper_error_counterexample:
  "lifespan_exit (Some (Exception ''connection lost'')) None None
     \<lparr>http_client = \<lparr>client = Some 0, heap = [new_async_client None]\<rparr>, calls = []\<rparr>
   = (Inl (Exception ''connection lost''),
      \<lparr>http_client = \<lparr>client = Some 0, heap = [new_async_client None]\<rparr>, calls = [CancelTask, AwaitTask]\<rparr>)"
  by (simp add: lifespan_exit_def except_CancelledError_def note_call_def)

text \<open>
  C8: when \<open>setup_database()\<close> raises, \<open>lifespan\<close> raises the same exception after
  that one call: it does not reach its \<open>yield\<close>, so the host never serves, and the sweeper
  task is not created. The task is created, and the \<open>yield\<close> reached, exactly when
  \<open>setup_database()\<close> completed, and after it.
\<close>

theorem startup_fail_fast:
  "lifespan_enter (Some e) w = (Inl e, w\<lparr>calls := calls w @ [SetupDatabase]\<rparr>)
   \<and> startup_steps (Some e) w = [SetupDatabase]
   \<and> lifespan_enter None w = (Inr (), w\<lparr>calls := calls w @ [SetupDatabase, CreateTask, Yield]\<rparr>)
   \<and> startup_steps None w = [SetupDatabase, CreateTask, Yield]
   \<and> (CreateTask \<in> set (startup_steps sd w)) = (sd = None)
   \<and> (Yield \<in> set (startup_steps sd w)) = (sd = None)"
  by (cases sd) (simp_all add: lifespan_enter_def startup_steps_def note_call_def)

end
